theory Spec2Isabelle
  imports Main "HOL-Library.Word"
begin

section \<open>The dispatch of the interpolated-grid descriptor kernel\<close>

text \<open>
  The development follows \<^verbatim>\<open>src/popsift/s_desc_igrid.h\<close>: the host function
  \<^verbatim>\<open>start_ext_desc_igrid\<close>, which reads the number of orientations of an octave,
  returns \<^verbatim>\<open>false\<close> when there is none and otherwise launches the kernel
  \<^verbatim>\<open>ext_desc_igrid\<close> on the octave's stream, checks the device and returns
  \<^verbatim>\<open>true\<close>. The kernel's body is not in that file; only its launch is modelled.
\<close>

subsection \<open>Machine types\<close>

text \<open>
  A C \<^verbatim>\<open>int\<close> is a 32-bit word read in two's complement (\<open>sint\<close>); the members
  of \<^verbatim>\<open>dim3\<close> are 32-bit words read as unsigned (\<open>unat\<close>). Stream and texture
  handles are opaque 64-bit values.
\<close>

type_synonym int32 = "32 word"
type_synonym uint32 = "32 word"
type_synonym hipStream_t = "64 word"
type_synonym hipTextureObject_t = "64 word"

text \<open>
  \<^verbatim>\<open>dim3\<close> of the HIP runtime: three unsigned members \<^verbatim>\<open>x\<close>, \<^verbatim>\<open>y\<close>, \<^verbatim>\<open>z\<close>
  (here \<open>dim_x\<close>, \<open>dim_y\<close>, \<open>dim_z\<close>), each 1 after the default constructor.
\<close>

record dim3 =
  dim_x :: uint32
  dim_y :: uint32
  dim_z :: uint32

definition dim3_default :: dim3 where
  "dim3_default = \<lparr>dim_x = 1, dim_y = 1, dim_z = 1\<rparr>"

text \<open>The conversion of an \<^verbatim>\<open>int\<close> to \<^verbatim>\<open>unsigned int\<close>: the value modulo \<open>2 ^ 32\<close>.\<close>

definition to_unsigned :: "int32 \<Rightarrow> uint32" where
  "to_unsigned c = word_of_int (sint c)"

datatype hipError_t = hipSuccess | hipErrorCode nat

subsection \<open>The runtime: launches, the log of calls, the error state\<close>

datatype kernel = ext_desc_igrid

text \<open>
  One \<^verbatim>\<open>hipLaunchKernelGGL\<close>: the kernel, the grid and block dimensions, the bytes of
  dynamic shared memory, the stream, and the two arguments of \<^verbatim>\<open>ext_desc_igrid\<close>.
\<close>

record launch =
  launch_kernel :: kernel
  launch_grid :: dim3
  launch_block :: dim3
  launch_shared :: nat
  launch_stream :: hipStream_t
  arg_octave :: int32
  arg_texLinear :: hipTextureObject_t

datatype event = KernelLaunch launch | SyncCheck

text \<open>
  Modelled from the spec: the type \<^verbatim>\<open>ExtremaCounters\<close> of the global \<^verbatim>\<open>hct\<close>, which
  is declared in \<^verbatim>\<open>sift_extremum.h\<close>, a header that is not part of the sources at hand.
  Only its member \<^verbatim>\<open>ori_ct\<close> is read, indexed by the octave: ``a process-wide lookup
  from octave index to pending-pair count''. The entries are taken to be C \<^verbatim>\<open>int\<close>s,
  like the index, so that the assignment to the unsigned \<^verbatim>\<open>grid.x\<close> is a conversion.
  The bound of the array is not known: the table is a lookup that answers every index,
  and what C++ leaves undefined for an index outside the array is not modelled.
\<close>

record ExtremaCounters =
  ori_ct :: "int32 \<Rightarrow> int32"

text \<open>
  The state the function runs in: the global \<^verbatim>\<open>hct\<close>; the calls made to the runtime so
  far, oldest first; the runtime's error state; and the device, which is the
  environment: \<open>device s l\<close> is what the backend reports for executing the launch \<open>l\<close>.
\<close>

record state =
  hct :: ExtremaCounters
  calls :: "event list"
  last_error :: hipError_t
  device :: "launch \<Rightarrow> hipError_t"

text \<open>
  Modelled from the spec: the class \<^verbatim>\<open>Octave\<close> and its accessors \<^verbatim>\<open>getStream\<close> and
  \<^verbatim>\<open>getDataTexLinear\<close>, which are declared in \<^verbatim>\<open>sift_octave.h\<close>, a header that is
  not part of the sources at hand. The octave holds ``an execution stream identifier''
  and ``a sampleable image'', and its accessors are ``thin read contracts''. The
  members that the function does not touch are the record's extension.
\<close>

record LinearTexture =
  tex :: hipTextureObject_t

record Octave =
  oct_stream :: hipStream_t
  oct_data_tex_linear :: LinearTexture

definition getStream :: "'a Octave_scheme \<Rightarrow> hipStream_t" where
  "getStream oct_obj = oct_stream oct_obj"

definition getDataTexLinear :: "'a Octave_scheme \<Rightarrow> LinearTexture" where
  "getDataTexLinear oct_obj = oct_data_tex_linear oct_obj"

text \<open>
  \<^verbatim>\<open>hipLaunchKernelGGL\<close> of the HIP runtime records the launch on its stream. A fault
  of the backend while it executes the launch becomes the runtime's error state; a
  success leaves the error state as it was. The launch is asynchronous; the model
  records the fault with the launch, as nothing reads the error state before the check
  that follows.
\<close>

definition hipLaunchKernelGGL ::
  "kernel \<Rightarrow> dim3 \<Rightarrow> dim3 \<Rightarrow> nat \<Rightarrow> hipStream_t \<Rightarrow> int32 \<Rightarrow> hipTextureObject_t \<Rightarrow> state \<Rightarrow> state"
where
  "hipLaunchKernelGGL k g b shm st a_octave a_tex s =
     (let l = \<lparr>launch_kernel = k, launch_grid = g, launch_block = b, launch_shared = shm,
                launch_stream = st, arg_octave = a_octave, arg_texLinear = a_tex\<rparr>
      in s\<lparr>calls := calls s @ [KernelLaunch l],
            last_error := (if device s l = hipSuccess then last_error s else device s l)\<rparr>)"

text \<open>
  Modelled from the spec: the macro \<^verbatim>\<open>POP_SYNC_CHK\<close>, which is defined in
  \<^verbatim>\<open>common/debug_macros.h\<close>, a header that is not part of the sources at hand. ``The
  stage performs an explicit synchronization/error check immediately after each launch
  and does not proceed past a failed launch''; a backend failure is ``fatal,
  unrecoverable locally; propagated up immediately after the synchronization checkpoint,
  aborting the current extraction pass''. The check is one call to the runtime; it ends
  the run with the error when the error state is not \<open>hipSuccess\<close>.
\<close>

datatype failure = BackendExecutionFailure hipError_t

definition POP_SYNC_CHK :: "state \<Rightarrow> (failure + unit) \<times> state" where
  "POP_SYNC_CHK s =
     (let s' = s\<lparr>calls := calls s @ [SyncCheck]\<rparr>
      in if last_error s \<noteq> hipSuccess then (Inl (BackendExecutionFailure (last_error s)), s')
         else (Inr (), s'))"

subsection \<open>The function\<close>

definition IGRID_NUMLINES :: uint32 where
  "IGRID_NUMLINES = 1"

text \<open>
  \<^verbatim>\<open>start_ext_desc_igrid( const int octave, Octave& oct_obj )\<close>. The octave object is
  passed by reference and the function reads a global, so the model takes the state and
  returns the octave object and the state with the result: \<open>Inr b\<close> when the function
  returns \<open>b\<close>, \<open>Inl f\<close> when the check after the launch ends the run.
\<close>

definition start_ext_desc_igrid ::
  "int32 \<Rightarrow> 'a Octave_scheme \<Rightarrow> state \<Rightarrow> (failure + bool) \<times> 'a Octave_scheme \<times> state"
where
  "start_ext_desc_igrid octave oct_obj s =
     (let block = dim3_default;
          grid = dim3_default;
          grid = grid\<lparr>dim_x := to_unsigned (ori_ct (hct s) octave)\<rparr>;
          grid = grid\<lparr>dim_y := 1\<rparr>;
          grid = grid\<lparr>dim_z := 1\<rparr>
      in if dim_x grid = 0 then (Inr False, oct_obj, s)
         else
           let block = block\<lparr>dim_x := 16\<rparr>;
               block = block\<lparr>dim_y := 16\<rparr>;
               block = block\<lparr>dim_z := IGRID_NUMLINES\<rparr>;
               s = hipLaunchKernelGGL ext_desc_igrid grid block 0 (getStream oct_obj) octave
                     (tex (getDataTexLinear oct_obj)) s
           in case POP_SYNC_CHK s of
                (Inl f, s) \<Rightarrow> (Inl f, oct_obj, s)
              | (Inr _, s) \<Rightarrow> (Inr True, oct_obj, s))"

subsection \<open>What a call does, read off its result\<close>

definition result :: "(failure + bool) \<times> 'a Octave_scheme \<times> state \<Rightarrow> failure + bool" where
  "result r = fst r"

definition octave_after :: "(failure + bool) \<times> 'a Octave_scheme \<times> state \<Rightarrow> 'a Octave_scheme" where
  "octave_after r = fst (snd r)"

definition state_after :: "(failure + bool) \<times> 'a Octave_scheme \<times> state \<Rightarrow> state" where
  "state_after r = snd (snd r)"

text \<open>The calls to the runtime that one call of the function adds to the log.\<close>

definition issued :: "int32 \<Rightarrow> 'a Octave_scheme \<Rightarrow> state \<Rightarrow> event list" where
  "issued octave oct_obj s =
     drop (length (calls s)) (calls (state_after (start_ext_desc_igrid octave oct_obj s)))"

fun kernel_launches :: "event list \<Rightarrow> launch list" where
  "kernel_launches [] = []"
| "kernel_launches (KernelLaunch l # es) = l # kernel_launches es"
| "kernel_launches (SyncCheck # es) = kernel_launches es"

text \<open>
  The launch that the function makes for an octave with pending work, written out; that
  the function makes this launch is the lemma \<open>issued_launch\<close> below.
\<close>

definition the_launch :: "int32 \<Rightarrow> 'a Octave_scheme \<Rightarrow> state \<Rightarrow> launch" where
  "the_launch octave oct_obj s =
     \<lparr>launch_kernel = ext_desc_igrid,
      launch_grid = \<lparr>dim_x = to_unsigned (ori_ct (hct s) octave), dim_y = 1, dim_z = 1\<rparr>,
      launch_block = \<lparr>dim_x = 16, dim_y = 16, dim_z = IGRID_NUMLINES\<rparr>,
      launch_shared = 0,
      launch_stream = getStream oct_obj,
      arg_octave = octave,
      arg_texLinear = tex (getDataTexLinear oct_obj)\<rparr>"

text \<open>The launches among some calls that went to the stream \<open>st\<close>.\<close>

definition launches_on :: "hipStream_t \<Rightarrow> event list \<Rightarrow> launch list" where
  "launches_on st es = filter (\<lambda>l. launch_stream l = st) (kernel_launches es)"

text \<open>
  The number of groups of a grid, the number of workers of a block, and the group
  indices (\<^verbatim>\<open>blockIdx\<close>) of a grid.
\<close>

definition grid_size :: "dim3 \<Rightarrow> nat" where
  "grid_size g = unat (dim_x g) * unat (dim_y g) * unat (dim_z g)"

definition block_size :: "dim3 \<Rightarrow> nat" where
  "block_size b = unat (dim_x b) * unat (dim_y b) * unat (dim_z b)"

definition group_indices :: "dim3 \<Rightarrow> (nat \<times> nat \<times> nat) set" where
  "group_indices g = {0..<unat (dim_x g)} \<times> {0..<unat (dim_y g)} \<times> {0..<unat (dim_z g)}"

definition groups_launched :: "event list \<Rightarrow> nat" where
  "groups_launched es = sum_list (map (\<lambda>l. grid_size (launch_grid l)) (kernel_launches es))"

text \<open>Every launch among some calls is directly followed by the check.\<close>

fun checked_after_launch :: "event list \<Rightarrow> bool" where
  "checked_after_launch [] = True"
| "checked_after_launch (KernelLaunch l # SyncCheck # es) = checked_after_launch es"
| "checked_after_launch (KernelLaunch l # es) = False"
| "checked_after_launch (SyncCheck # es) = checked_after_launch es"

text \<open>The error state that the check after the launch reads.\<close>

definition error_at_check :: "int32 \<Rightarrow> 'a Octave_scheme \<Rightarrow> state \<Rightarrow> hipError_t" where
  "error_at_check octave oct_obj s =
     (if device s (the_launch octave oct_obj s) = hipSuccess then last_error s
      else device s (the_launch octave oct_obj s))"

subsection \<open>Two scenarios\<close>

text \<open>
  An octave object with stream 7 and texture 42, and a state in which octave 0 has four
  pending orientations and every other octave none, no call has been made yet and the
  device executes every launch without a fault. The second state differs in the device
  only: it reports an error for every launch.
\<close>

definition scenario_octave :: Octave where
  "scenario_octave = \<lparr>oct_stream = 7, oct_data_tex_linear = \<lparr>tex = 42\<rparr>\<rparr>"

definition scenario_state :: state where
  "scenario_state =
     \<lparr>hct = \<lparr>ori_ct = (\<lambda>i. if i = 0 then 4 else 0)\<rparr>, calls = [], last_error = hipSuccess,
      device = (\<lambda>l. hipSuccess)\<rparr>"

definition faulty_state :: state where
  "faulty_state = scenario_state\<lparr>device := (\<lambda>l. hipErrorCode 700)\<rparr>"

section \<open>The two paths of the function\<close>

lemma to_unsigned_id: "to_unsigned c = c"
  by (simp add: to_unsigned_def)

lemma start_no_work:
  "ori_ct (hct s) octave = 0 \<Longrightarrow> start_ext_desc_igrid octave oct_obj s = (Inr False, oct_obj, s)"
  by (simp add: start_ext_desc_igrid_def to_unsigned_id)

lemma start_launch:
  "ori_ct (hct s) octave \<noteq> 0 \<Longrightarrow>
   start_ext_desc_igrid octave oct_obj s =
     (if error_at_check octave oct_obj s \<noteq> hipSuccess
      then Inl (BackendExecutionFailure (error_at_check octave oct_obj s)) else Inr True,
      oct_obj,
      s\<lparr>calls := calls s @ [KernelLaunch (the_launch octave oct_obj s), SyncCheck],
        last_error := error_at_check octave oct_obj s\<rparr>)"
  by (simp add: start_ext_desc_igrid_def to_unsigned_id dim3_default_def hipLaunchKernelGGL_def
      POP_SYNC_CHK_def the_launch_def error_at_check_def Let_def)

lemma issued_no_work: "ori_ct (hct s) octave = 0 \<Longrightarrow> issued octave oct_obj s = []"
  by (simp add: issued_def start_no_work state_after_def)

lemma issued_launch:
  "ori_ct (hct s) octave \<noteq> 0 \<Longrightarrow>
   issued octave oct_obj s = [KernelLaunch (the_launch octave oct_obj s), SyncCheck]"
  by (simp add: issued_def start_launch state_after_def)

lemma launches_cases:
  "kernel_launches (issued octave oct_obj s) =
     (if ori_ct (hct s) octave = 0 then [] else [the_launch octave oct_obj s])"
  by (simp add: issued_no_work issued_launch)

lemma result_no_work:
  "ori_ct (hct s) octave = 0 \<Longrightarrow> result (start_ext_desc_igrid octave oct_obj s) = Inr False"
  by (simp add: start_no_work result_def)

lemma result_launch:
  "ori_ct (hct s) octave \<noteq> 0 \<Longrightarrow>
   result (start_ext_desc_igrid octave oct_obj s) =
     (if error_at_check octave oct_obj s \<noteq> hipSuccess
      then Inl (BackendExecutionFailure (error_at_check octave oct_obj s)) else Inr True)"
  by (simp add: start_launch result_def)

lemma sint_nonneg_uint: "0 \<le> sint (c :: 32 word) \<Longrightarrow> uint c = sint c"
proof -
  assume nonneg: "0 \<le> sint c"
  have "sint c < 2 ^ 32"
    using sint_lt [of c] by simp
  with nonneg have "take_bit 32 (sint c) = sint c"
    by (simp add: take_bit_int_eq_self)
  then show ?thesis
    using uint_sint [of c] by simp
qed

text \<open>
  What a call leaves alone, and what its calls and its result depend on: the octave
  index, the octave object and the octave's entry of the table; the result also on the
  error state and the device.
\<close>

lemma hct_after: "hct (state_after (start_ext_desc_igrid octave oct_obj s)) = hct s"
  by (cases "ori_ct (hct s) octave = 0") (simp_all add: start_no_work start_launch state_after_def)

lemma the_launch_count:
  "ori_ct (hct s1) octave = c \<Longrightarrow> ori_ct (hct s2) octave = c \<Longrightarrow>
   the_launch octave oct_obj s1 = the_launch octave oct_obj s2"
  by (simp add: the_launch_def)

lemma issued_count:
  "ori_ct (hct s1) octave = c \<Longrightarrow> ori_ct (hct s2) octave = c \<Longrightarrow>
   issued octave oct_obj s1 = issued octave oct_obj s2"
  by (cases "c = 0") (simp_all add: issued_no_work issued_launch the_launch_count [of s1 octave c s2])

lemma returned_count:
  "ori_ct (hct s1) octave = c \<Longrightarrow> ori_ct (hct s2) octave = c \<Longrightarrow>
   result (start_ext_desc_igrid octave oct_obj s1) = Inr b1 \<Longrightarrow>
   result (start_ext_desc_igrid octave oct_obj s2) = Inr b2 \<Longrightarrow> b1 = b2"
  by (cases "c = 0") (auto simp add: result_no_work result_launch split: if_splits)

lemma result_count:
  "ori_ct (hct s1) octave = c \<Longrightarrow> ori_ct (hct s2) octave = c \<Longrightarrow>
   last_error s1 = last_error s2 \<Longrightarrow> device s1 = device s2 \<Longrightarrow>
   result (start_ext_desc_igrid octave oct_obj s1) = result (start_ext_desc_igrid octave oct_obj s2)"
  by (cases "c = 0")
    (simp_all add: result_no_work result_launch error_at_check_def the_launch_count [of s1 octave c s2])

lemma rerun_result:
  assumes "result (start_ext_desc_igrid octave oct_obj s) = Inr b"
  shows "result (start_ext_desc_igrid octave oct_obj
           (state_after (start_ext_desc_igrid octave oct_obj s))) = Inr b"
proof (cases "ori_ct (hct s) octave = 0")
  case True
  with assms show ?thesis
    by (simp add: start_no_work state_after_def)
next
  case False
  with assms have ok: "error_at_check octave oct_obj s = hipSuccess" and b: "b"
    by (auto simp add: result_launch split: if_splits)
  let ?s' = "state_after (start_ext_desc_igrid octave oct_obj s)"
  have "ori_ct (hct ?s') octave \<noteq> 0"
    using False by (simp add: hct_after)
  moreover have "error_at_check octave oct_obj ?s' = hipSuccess"
    using False ok
    by (auto simp add: error_at_check_def start_launch state_after_def the_launch_def split: if_splits)
  ultimately show ?thesis
    using b by (simp add: result_launch)
qed

section \<open>The properties of the dispatch\<close>

subsection \<open>Work conservation\<close>

text \<open>
  C1. For every octave, the groups that one call launches are as many as the octave has
  pending orientations: the total grid size \<open>x * y * z\<close> of the launch is the entry
  \<open>ori_ct\<close> of the octave converted to \<^verbatim>\<open>unsigned\<close>, and no group is launched when the
  entry is 0. For an entry that is a count, that is not negative as an \<^verbatim>\<open>int\<close>, the
  number of groups is the entry itself.
\<close>

theorem work_conservation:
  "groups_launched (issued octave oct_obj s) = unat (to_unsigned (ori_ct (hct s) octave)) \<and>
   (\<forall>l \<in> set (kernel_launches (issued octave oct_obj s)).
      grid_size (launch_grid l) = unat (to_unsigned (ori_ct (hct s) octave))) \<and>
   (0 \<le> sint (ori_ct (hct s) octave) \<longrightarrow>
      int (groups_launched (issued octave oct_obj s)) = sint (ori_ct (hct s) octave))"
  by (simp add: launches_cases groups_launched_def grid_size_def the_launch_def to_unsigned_id
      sint_nonneg_uint)

theorem work_conservation_witness:
  "0 \<le> sint (ori_ct (hct scenario_state) 0) \<and>
   groups_launched (issued 0 scenario_octave scenario_state) = 4 \<and>
   groups_launched (issued 1 scenario_octave scenario_state) = 0"
  using work_conservation [of 0 scenario_octave scenario_state]
    work_conservation [of 1 scenario_octave scenario_state]
  by (simp add: scenario_state_def to_unsigned_id)

subsection \<open>The octave without work\<close>

text \<open>
  C2. For an octave whose pending count is zero the function returns \<^verbatim>\<open>false\<close>; it
  makes no call to the runtime, so no launch and nothing on any stream; the state is as
  before; and the outcome is a returned value, not a failure.
\<close>

theorem no_work_skips:
  "ori_ct (hct s) octave = 0 \<Longrightarrow>
   result (start_ext_desc_igrid octave oct_obj s) = Inr False \<and>
   issued octave oct_obj s = [] \<and>
   (\<forall>st. launches_on st (issued octave oct_obj s) = []) \<and>
   state_after (start_ext_desc_igrid octave oct_obj s) = s \<and>
   (\<forall>f. result (start_ext_desc_igrid octave oct_obj s) \<noteq> Inl f)"
  by (simp add: issued_no_work launches_on_def start_no_work state_after_def result_def)

theorem no_work_skips_witness:
  "ori_ct (hct scenario_state) 1 = 0 \<and>
   result (start_ext_desc_igrid 1 scenario_octave scenario_state) = Inr False \<and>
   issued 1 scenario_octave scenario_state = [] \<and>
   state_after (start_ext_desc_igrid 1 scenario_octave scenario_state) = scenario_state"
proof -
  have zero: "ori_ct (hct scenario_state) 1 = 0"
    by (simp add: scenario_state_def)
  show ?thesis
    using zero no_work_skips [OF zero, of scenario_octave] by simp
qed

subsection \<open>The octave with work\<close>

text \<open>
  C3. For an octave whose pending count is positive the function makes exactly one launch,
  of the kernel \<^verbatim>\<open>ext_desc_igrid\<close>, and it does not return \<^verbatim>\<open>false\<close>: it returns
  \<^verbatim>\<open>true\<close> when the check after the launch finds no error. For every octave, a returned
  value is \<^verbatim>\<open>true\<close> exactly when a launch was made.
\<close>

theorem one_launch_iff_true:
  "(0 < sint (ori_ct (hct s) octave) \<longrightarrow>
      kernel_launches (issued octave oct_obj s) = [the_launch octave oct_obj s] \<and>
      launch_kernel (the_launch octave oct_obj s) = ext_desc_igrid \<and>
      result (start_ext_desc_igrid octave oct_obj s) \<noteq> Inr False \<and>
      (error_at_check octave oct_obj s = hipSuccess \<longrightarrow>
         result (start_ext_desc_igrid octave oct_obj s) = Inr True)) \<and>
   (\<forall>b. result (start_ext_desc_igrid octave oct_obj s) = Inr b \<longrightarrow>
      (b \<longleftrightarrow> kernel_launches (issued octave oct_obj s) \<noteq> []))"
proof (cases "ori_ct (hct s) octave = 0")
  case True
  then show ?thesis
    by (simp add: result_no_work launches_cases)
next
  case False
  then show ?thesis
    by (simp add: result_launch launches_cases the_launch_def)
qed

theorem one_launch_iff_true_witness:
  "0 < sint (ori_ct (hct scenario_state) 0) \<and>
   error_at_check 0 scenario_octave scenario_state = hipSuccess \<and>
   length (kernel_launches (issued 0 scenario_octave scenario_state)) = 1 \<and>
   result (start_ext_desc_igrid 0 scenario_octave scenario_state) = Inr True"
proof -
  have pos: "0 < sint (ori_ct (hct scenario_state) 0)"
    by (simp add: scenario_state_def)
  have ok: "error_at_check 0 scenario_octave scenario_state = hipSuccess"
    by (simp add: error_at_check_def scenario_state_def)
  show ?thesis
    using pos ok one_launch_iff_true [of scenario_state 0 scenario_octave] by simp
qed

subsection \<open>The stream of the launch\<close>

text \<open>
  C4. Every launch the function makes goes to the stream of the octave object it was
  given, \<open>getStream oct_obj\<close>: no other stream receives a launch.
\<close>

theorem launch_on_octave_stream:
  "(\<forall>l \<in> set (kernel_launches (issued octave oct_obj s)). launch_stream l = getStream oct_obj) \<and>
   (\<forall>st. st \<noteq> getStream oct_obj \<longrightarrow> launches_on st (issued octave oct_obj s) = []) \<and>
   launches_on (getStream oct_obj) (issued octave oct_obj s) =
     kernel_launches (issued octave oct_obj s)"
  by (simp add: launches_cases launches_on_def the_launch_def)

theorem launch_on_octave_stream_witness:
  "kernel_launches (issued 0 scenario_octave scenario_state) \<noteq> [] \<and>
   launch_stream (hd (kernel_launches (issued 0 scenario_octave scenario_state))) = 7 \<and>
   launches_on 0 (issued 0 scenario_octave scenario_state) = []"
proof -
  have nonzero: "ori_ct (hct scenario_state) 0 \<noteq> 0"
    by (simp add: scenario_state_def)
  have stream: "getStream scenario_octave = 7"
    by (simp add: getStream_def scenario_octave_def)
  show ?thesis
    using launch_on_octave_stream [of 0 scenario_octave scenario_state] nonzero stream
    by (simp add: launches_cases)
qed

subsection \<open>The check after the launch\<close>

text \<open>
  C5. In the calls of the function every kernel launch is directly followed by the
  synchronisation check, which is the last call before the function returns. When the
  backend reports a fault for the launch, or the runtime already holds an error, the
  check ends the run with that error: the function returns a value only when neither is
  the case.
\<close>

theorem sync_check_after_launch:
  "checked_after_launch (issued octave oct_obj s) \<and>
   (ori_ct (hct s) octave \<noteq> 0 \<longrightarrow>
      issued octave oct_obj s = [KernelLaunch (the_launch octave oct_obj s), SyncCheck] \<and>
      (device s (the_launch octave oct_obj s) \<noteq> hipSuccess \<longrightarrow>
         result (start_ext_desc_igrid octave oct_obj s) =
           Inl (BackendExecutionFailure (device s (the_launch octave oct_obj s)))) \<and>
      (error_at_check octave oct_obj s \<noteq> hipSuccess \<longrightarrow>
         result (start_ext_desc_igrid octave oct_obj s) =
           Inl (BackendExecutionFailure (error_at_check octave oct_obj s))) \<and>
      (\<forall>b. result (start_ext_desc_igrid octave oct_obj s) = Inr b \<longrightarrow>
         device s (the_launch octave oct_obj s) = hipSuccess \<and> last_error s = hipSuccess))"
proof (cases "ori_ct (hct s) octave = 0")
  case True
  then show ?thesis
    by (simp add: issued_no_work)
next
  case False
  then show ?thesis
    by (simp add: issued_launch result_launch error_at_check_def)
qed

theorem sync_check_after_launch_witness:
  "ori_ct (hct faulty_state) 0 \<noteq> 0 \<and>
   device faulty_state (the_launch 0 scenario_octave faulty_state) \<noteq> hipSuccess \<and>
   issued 0 scenario_octave faulty_state =
     [KernelLaunch (the_launch 0 scenario_octave faulty_state), SyncCheck] \<and>
   result (start_ext_desc_igrid 0 scenario_octave faulty_state) =
     Inl (BackendExecutionFailure (hipErrorCode 700))"
proof -
  have nonzero: "ori_ct (hct faulty_state) 0 \<noteq> 0"
    by (simp add: faulty_state_def scenario_state_def)
  have fault: "device faulty_state (the_launch 0 scenario_octave faulty_state) = hipErrorCode 700"
    by (simp add: faulty_state_def)
  show ?thesis
    using nonzero fault sync_check_after_launch [of 0 scenario_octave faulty_state] by simp
qed

subsection \<open>The tile shape\<close>

text \<open>
  C6, as stated: a caller can select the tile shape through some input of the function.
  It cannot: no two calls, whatever the octave index, the octave object and the state,
  make launches whose block dimensions differ.
\<close>

theorem tile_shape_not_selectable:
  "\<not> (\<exists>octave (oct_obj :: Octave) s octave' (oct_obj' :: Octave) s' l l'.
        l \<in> set (kernel_launches (issued octave oct_obj s)) \<and>
        l' \<in> set (kernel_launches (issued octave' oct_obj' s')) \<and>
        launch_block l \<noteq> launch_block l')"
  by (auto simp add: launches_cases the_launch_def split: if_splits)

text \<open>
  C6, amended: the tile shape is fixed in the function. The launches of any two calls
  have the same block dimensions, 16 by 16 by \<^verbatim>\<open>IGRID_NUMLINES\<close>: the two 16s are
  literals and \<^verbatim>\<open>IGRID_NUMLINES\<close> is a macro of the same file.
\<close>

theorem tile_shape_fixed:
  "l \<in> set (kernel_launches (issued octave oct_obj s)) \<Longrightarrow>
   l' \<in> set (kernel_launches (issued octave' oct_obj' s')) \<Longrightarrow>
   launch_block l = launch_block l' \<and>
   launch_block l = \<lparr>dim_x = 16, dim_y = 16, dim_z = IGRID_NUMLINES\<rparr>"
  by (auto simp add: launches_cases the_launch_def split: if_splits)

theorem tile_shape_fixed_witness:
  "the_launch 0 scenario_octave scenario_state
     \<in> set (kernel_launches (issued 0 scenario_octave scenario_state)) \<and>
   the_launch 5 (scenario_octave\<lparr>oct_stream := 9\<rparr>) (faulty_state\<lparr>hct := \<lparr>ori_ct = (\<lambda>i. 1000)\<rparr>\<rparr>)
     \<in> set (kernel_launches (issued 5 (scenario_octave\<lparr>oct_stream := 9\<rparr>)
               (faulty_state\<lparr>hct := \<lparr>ori_ct = (\<lambda>i. 1000)\<rparr>\<rparr>))) \<and>
   launch_block (the_launch 0 scenario_octave scenario_state) =
     launch_block (the_launch 5 (scenario_octave\<lparr>oct_stream := 9\<rparr>)
       (faulty_state\<lparr>hct := \<lparr>ori_ct = (\<lambda>i. 1000)\<rparr>\<rparr>))"
proof -
  have a: "the_launch 0 scenario_octave scenario_state
     \<in> set (kernel_launches (issued 0 scenario_octave scenario_state))"
    by (simp add: launches_cases scenario_state_def)
  have b: "the_launch 5 (scenario_octave\<lparr>oct_stream := 9\<rparr>) (faulty_state\<lparr>hct := \<lparr>ori_ct = (\<lambda>i. 1000)\<rparr>\<rparr>)
     \<in> set (kernel_launches (issued 5 (scenario_octave\<lparr>oct_stream := 9\<rparr>)
               (faulty_state\<lparr>hct := \<lparr>ori_ct = (\<lambda>i. 1000)\<rparr>\<rparr>)))"
    by (simp add: launches_cases)
  show ?thesis
    using a b tile_shape_fixed [OF a b] by simp
qed

subsection \<open>Determinism\<close>

text \<open>
  C7. Two runs on the same octave index and the same octave object, in states where the
  octave has the same pending count, make the same calls: the same launches, with the
  same grid and block dimensions, the same stream and the same texture argument. When
  both return, they return the same value; when the error state and the device are the
  same as well, the results are the same. A second run in the state the first one left,
  after it returned, returns the same value and makes the same calls.
\<close>

theorem deterministic_dispatch:
  "ori_ct (hct s1) octave = ori_ct (hct s2) octave \<Longrightarrow>
   issued octave oct_obj s1 = issued octave oct_obj s2 \<and>
   map launch_grid (kernel_launches (issued octave oct_obj s1)) =
     map launch_grid (kernel_launches (issued octave oct_obj s2)) \<and>
   map launch_block (kernel_launches (issued octave oct_obj s1)) =
     map launch_block (kernel_launches (issued octave oct_obj s2)) \<and>
   map launch_stream (kernel_launches (issued octave oct_obj s1)) =
     map launch_stream (kernel_launches (issued octave oct_obj s2)) \<and>
   map arg_texLinear (kernel_launches (issued octave oct_obj s1)) =
     map arg_texLinear (kernel_launches (issued octave oct_obj s2)) \<and>
   (\<forall>b1 b2. result (start_ext_desc_igrid octave oct_obj s1) = Inr b1 \<and>
            result (start_ext_desc_igrid octave oct_obj s2) = Inr b2 \<longrightarrow> b1 = b2) \<and>
   (last_error s1 = last_error s2 \<and> device s1 = device s2 \<longrightarrow>
      result (start_ext_desc_igrid octave oct_obj s1) =
        result (start_ext_desc_igrid octave oct_obj s2)) \<and>
   (\<forall>b. result (start_ext_desc_igrid octave oct_obj s1) = Inr b \<longrightarrow>
      result (start_ext_desc_igrid octave oct_obj
        (state_after (start_ext_desc_igrid octave oct_obj s1))) = Inr b \<and>
      issued octave oct_obj (state_after (start_ext_desc_igrid octave oct_obj s1)) =
        issued octave oct_obj s1)"
proof -
  assume same: "ori_ct (hct s1) octave = ori_ct (hct s2) octave"
  have "issued octave oct_obj s1 = issued octave oct_obj s2"
    using same refl by (rule issued_count)
  moreover have "\<forall>b1 b2. result (start_ext_desc_igrid octave oct_obj s1) = Inr b1 \<and>
            result (start_ext_desc_igrid octave oct_obj s2) = Inr b2 \<longrightarrow> b1 = b2"
    using returned_count [OF same refl] by blast
  moreover have "last_error s1 = last_error s2 \<and> device s1 = device s2 \<longrightarrow>
      result (start_ext_desc_igrid octave oct_obj s1) =
        result (start_ext_desc_igrid octave oct_obj s2)"
    using result_count [OF same refl] by blast
  moreover have "\<forall>b. result (start_ext_desc_igrid octave oct_obj s1) = Inr b \<longrightarrow>
      result (start_ext_desc_igrid octave oct_obj
        (state_after (start_ext_desc_igrid octave oct_obj s1))) = Inr b \<and>
      issued octave oct_obj (state_after (start_ext_desc_igrid octave oct_obj s1)) =
        issued octave oct_obj s1"
  proof -
    have "ori_ct (hct (state_after (start_ext_desc_igrid octave oct_obj s1))) octave =
        ori_ct (hct s1) octave"
      by (simp add: hct_after)
    then have "issued octave oct_obj (state_after (start_ext_desc_igrid octave oct_obj s1)) =
        issued octave oct_obj s1"
      using refl by (rule issued_count)
    then show ?thesis
      using rerun_result [of octave oct_obj s1] by blast
  qed
  ultimately show ?thesis
    by simp
qed

theorem deterministic_dispatch_witness:
  "ori_ct (hct scenario_state) 0 =
     ori_ct (hct (state_after (start_ext_desc_igrid 0 scenario_octave scenario_state))) 0 \<and>
   issued 0 scenario_octave scenario_state =
     issued 0 scenario_octave (state_after (start_ext_desc_igrid 0 scenario_octave scenario_state)) \<and>
   result (start_ext_desc_igrid 0 scenario_octave scenario_state) = Inr True \<and>
   result (start_ext_desc_igrid 0 scenario_octave
     (state_after (start_ext_desc_igrid 0 scenario_octave scenario_state))) = Inr True"
proof -
  let ?s' = "state_after (start_ext_desc_igrid 0 scenario_octave scenario_state)"
  have same: "ori_ct (hct scenario_state) 0 = ori_ct (hct ?s') 0"
    by (simp add: hct_after)
  have nonzero: "ori_ct (hct scenario_state) 0 \<noteq> 0"
    by (simp add: scenario_state_def)
  have first: "result (start_ext_desc_igrid 0 scenario_octave scenario_state) = Inr True"
    using nonzero by (simp add: result_launch error_at_check_def scenario_state_def)
  have second: "result (start_ext_desc_igrid 0 scenario_octave ?s') = Inr True"
    using first by (rule rerun_result)
  have launches: "issued 0 scenario_octave scenario_state = issued 0 scenario_octave ?s'"
    using deterministic_dispatch [OF same, of scenario_octave] by (rule conjunct1)
  from same launches first second show ?thesis
    by blast
qed

subsection \<open>The geometry of the launch\<close>

text \<open>
  C8. Every launch of the function has a one-dimensional grid: \<open>y\<close> and \<open>z\<close> of the grid
  are 1, the number of groups is \<open>x\<close>, and the group indices are \<open>(i, 0, 0)\<close> for \<open>i\<close>
  below the octave's entry converted to \<^verbatim>\<open>unsigned\<close>; for an entry that is a count, that
  is for \<open>i\<close> from 0 up to the count, the count excluded.
\<close>

theorem one_dimensional_grid:
  "(\<forall>l \<in> set (kernel_launches (issued octave oct_obj s)).
      dim_y (launch_grid l) = 1 \<and> dim_z (launch_grid l) = 1 \<and>
      grid_size (launch_grid l) = unat (dim_x (launch_grid l)) \<and>
      group_indices (launch_grid l) =
        (\<lambda>i. (i, 0, 0)) ` {0..<unat (to_unsigned (ori_ct (hct s) octave))}) \<and>
   (0 \<le> sint (ori_ct (hct s) octave) \<longrightarrow>
      (\<forall>l \<in> set (kernel_launches (issued octave oct_obj s)).
         group_indices (launch_grid l) = (\<lambda>i. (i, 0, 0)) ` {i. int i < sint (ori_ct (hct s) octave)}))"
proof -
  have line: "A \<times> {(0, 0)} = (\<lambda>i. (i, 0, 0)) ` A" for A :: "nat set"
    by auto
  have count: "{0..<unat c} = {i. int i < sint c}" if "0 \<le> sint c" for c :: "32 word"
  proof -
    have "unat c = nat (sint c)"
      using sint_nonneg_uint [OF that] by (simp add: unat_eq_nat_uint)
    with that show ?thesis
      by auto
  qed
  show ?thesis
    by (simp add: launches_cases the_launch_def grid_size_def group_indices_def to_unsigned_id
        line count)
qed

theorem one_dimensional_grid_witness:
  "0 \<le> sint (ori_ct (hct scenario_state) 0) \<and>
   kernel_launches (issued 0 scenario_octave scenario_state) \<noteq> [] \<and>
   group_indices (launch_grid (hd (kernel_launches (issued 0 scenario_octave scenario_state)))) =
     {(0, 0, 0), (1, 0, 0), (2, 0, 0), (3, 0, 0)}"
proof -
  have nonzero: "ori_ct (hct scenario_state) 0 \<noteq> 0"
    by (simp add: scenario_state_def)
  have four: "ori_ct (hct scenario_state) 0 = 4"
    by (simp add: scenario_state_def)
  have range: "{0..<4::nat} = {0, 1, 2, 3}"
    by auto
  show ?thesis
    using one_dimensional_grid [of 0 scenario_octave scenario_state] nonzero
    by (simp add: launches_cases four to_unsigned_id range)
qed

text \<open>
  C9. Every launch of the function has the block dimensions (16, 16, 1), which is 256
  workers in a group, as \<^verbatim>\<open>IGRID_NUMLINES\<close> is 1. These are neither (16, 4, 4) nor
  (32, 4, 4), the blocks that the comment at the declaration of the kernel names.
\<close>

theorem block_is_16_16_1:
  "IGRID_NUMLINES = 1 \<and>
   (\<forall>l \<in> set (kernel_launches (issued octave oct_obj s)).
      launch_block l = \<lparr>dim_x = 16, dim_y = 16, dim_z = 1\<rparr> \<and>
      block_size (launch_block l) = 256 \<and>
      launch_block l \<noteq> \<lparr>dim_x = 16, dim_y = 4, dim_z = 4\<rparr> \<and>
      launch_block l \<noteq> \<lparr>dim_x = 32, dim_y = 4, dim_z = 4\<rparr>)"
  by (simp add: launches_cases the_launch_def IGRID_NUMLINES_def block_size_def)

theorem block_is_16_16_1_witness:
  "kernel_launches (issued 0 scenario_octave scenario_state) \<noteq> [] \<and>
   launch_block (hd (kernel_launches (issued 0 scenario_octave scenario_state))) =
     \<lparr>dim_x = 16, dim_y = 16, dim_z = 1\<rparr> \<and>
   block_size (launch_block (hd (kernel_launches (issued 0 scenario_octave scenario_state)))) = 256"
proof -
  have nonzero: "ori_ct (hct scenario_state) 0 \<noteq> 0"
    by (simp add: scenario_state_def)
  show ?thesis
    using block_is_16_16_1 [of 0 scenario_octave scenario_state] nonzero
    by (simp add: launches_cases block_size_def)
qed

subsection \<open>The frame\<close>

text \<open>
  C10. The function does not change its inputs, on either path: the table \<^verbatim>\<open>hct\<close> and
  the octave object, with every member it has, are after the call what they were before.
  The device is the same too, and the calls made before are still the beginning of the
  log.
\<close>

theorem inputs_not_mutated:
  "hct (state_after (start_ext_desc_igrid octave oct_obj s)) = hct s \<and>
   octave_after (start_ext_desc_igrid octave oct_obj s) = oct_obj \<and>
   device (state_after (start_ext_desc_igrid octave oct_obj s)) = device s \<and>
   take (length (calls s)) (calls (state_after (start_ext_desc_igrid octave oct_obj s))) = calls s"
  by (cases "ori_ct (hct s) octave = 0")
    (simp_all add: start_no_work start_launch state_after_def octave_after_def)

end
